theory Spec2Isabelle
  imports Complex_Main "HOL-Library.Word"
begin

section \<open>Task configuration and the derived command (package task)\<close>

text \<open>
  \<open>ConfigIO\<close> and \<open>Config\<close> are the Go structs of the same names. Record fields are
  global constants in HOL, so the fields of \<open>ConfigIO\<close> carry the prefix \<open>io_\<close> and
  those of \<open>Config\<close> the prefix \<open>cfg_\<close>. The \<open>uint64\<close> fields are 64-bit words.
  \<open>LimitCPU\<close> is a \<open>float64\<close> that no operation of the registry computes with; it
  is carried as a rational.
\<close>

record ConfigIO =
  io_ID :: string
  io_Address :: string
  io_Options :: "string list"

record Config =
  cfg_ID :: string
  cfg_Reference :: string
  cfg_Input :: "ConfigIO list"
  cfg_Output :: "ConfigIO list"
  cfg_Options :: "string list"
  cfg_Reconnect :: bool
  cfg_ReconnectDelay :: "64 word"
  cfg_Autostart :: bool
  cfg_StaleTimeout :: "64 word"
  cfg_LimitCPU :: rat
  cfg_LimitMemory :: "64 word"
  cfg_LimitWaitFor :: "64 word"

text \<open>
  \<open>CreateCommand\<close> appends to a slice that starts out \<open>nil\<close>: first the global
  options, then one pass over the inputs, then one pass over the outputs. Each
  \<open>for ... range\<close> loop is a \<open>fold\<close> whose accumulator is the slice \<open>cmd\<close>, and each
  \<open>append\<close> is a list append at the end.
\<close>

definition CreateCommand :: "Config \<Rightarrow> string list" where
  "CreateCommand c =
     (let cmd = [] @ cfg_Options c;
          cmd = fold (\<lambda>inp cmd. (cmd @ io_Options inp) @ [''-i'', io_Address inp])
                  (cfg_Input c) cmd;
          cmd = fold (\<lambda>out cmd. (cmd @ io_Options out) @ [io_Address out])
                  (cfg_Output c) cmd
      in cmd)"

section \<open>Address validator (package ffmpeg)\<close>

text \<open>
  A compiled \<open>*regexp.Regexp\<close> is used by the validator through \<open>MatchString\<close> only,
  so an expression is modelled by the predicate it decides on strings. The expressions
  themselves come from the configuration of the service.
\<close>

type_synonym regexp = "string \<Rightarrow> bool"

record validator =
  allow :: "regexp list"
  block :: "regexp list"

text \<open>The two \<open>for ... range\<close> loops of \<open>IsValid\<close>, each returning at the first match.\<close>

fun block_loop :: "regexp list \<Rightarrow> string \<Rightarrow> bool" where
  "block_loop [] text = False"
| "block_loop (e # es) text = (if e text then True else block_loop es text)"

fun allow_loop :: "regexp list \<Rightarrow> string \<Rightarrow> bool" where
  "allow_loop [] text = False"
| "allow_loop (e # es) text = (if e text then True else allow_loop es text)"

definition IsValid :: "validator \<Rightarrow> string \<Rightarrow> bool" where
  "IsValid v text =
     (if block_loop (block v) text then False
      else if length (allow v) = 0 then True
      else if allow_loop (allow v) text then True
      else False)"

section \<open>Progress parser (package parse)\<close>

text \<open>
  \<open>Progress\<close> is the Go struct of that name. \<open>Frame\<close>, \<open>Size\<close>, \<open>Drop\<close> and \<open>Dup\<close> are
  \<open>uint64\<close>, modelled as 64-bit words. \<open>Time\<close>, \<open>Speed\<close> and \<open>Quantizer\<close> are
  \<open>float64\<close>: they are modelled by the exact rational that the decimal text or the
  quotient denotes, so the rounding to the nearest binary float is not part of the
  model.
\<close>

record Progress =
  Frame :: "64 word"
  Size :: "64 word"
  Time :: rat
  Speed :: rat
  Drop :: "64 word"
  Dup :: "64 word"
  Quantizer :: rat

definition Progress_zero :: Progress where
  "Progress_zero =
     \<lparr>Frame = 0, Size = 0, Time = 0, Speed = 0, Drop = 0, Dup = 0, Quantizer = 0\<rparr>"

text \<open>
  The log is a \<open>container/ring\<close> of \<open>logLines\<close> slots and \<open>p.log\<close> points at the slot
  written next. The ring is modelled by the list of its slots in the order \<open>Do\<close> visits
  them, starting at \<open>p.log\<close>: an empty slot is \<open>None\<close>. Writing the current slot and
  moving to \<open>Next()\<close> drops the head and appends the new value. A \<open>process.Line\<close> is
  modelled by its \<open>Data\<close>; the wall-clock \<open>Timestamp\<close> and \<open>logStart\<close> are left out.
\<close>

record parser =
  logLines :: int
  log_ring :: "string option list"
  progress :: Progress

definition ring_New :: "int \<Rightarrow> string option list" where
  "ring_New n = replicate (nat n) None"

definition ring_put :: "string \<Rightarrow> string option list \<Rightarrow> string option list" where
  "ring_put line r = (case r of [] \<Rightarrow> [] | _ # rest \<Rightarrow> rest @ [Some line])"

definition New_parser :: "int \<Rightarrow> parser" where
  "New_parser LogLines =
     (let n = (if LogLines \<le> 0 then 100 else LogLines)
      in \<lparr>logLines = n, log_ring = ring_New n, progress = Progress_zero\<rparr>)"

subsection \<open>Character classes and \<open>strconv\<close>\<close>

text \<open>
  Strings are byte lists. The patterns of the parser are ASCII, and no byte of a
  multi-byte UTF-8 sequence is an ASCII byte, so matching bytes is matching runes.
  \<open>\s\<close> of Go's regexp syntax is tab, line feed, form feed, carriage return and space.
\<close>

definition is_space :: "char \<Rightarrow> bool" where
  "is_space c \<longleftrightarrow> c \<in> {CHR 0x09, CHR 0x0A, CHR 0x0C, CHR 0x0D, CHR 0x20}"

definition is_digit :: "char \<Rightarrow> bool" where
  "is_digit c \<longleftrightarrow> c \<in> set ''0123456789''"

definition is_digit_or_dot :: "char \<Rightarrow> bool" where
  "is_digit_or_dot c \<longleftrightarrow> is_digit c \<or> c = CHR ''.''"

definition digit_val :: "char \<Rightarrow> int" where
  "digit_val c = of_char c - 48"

definition digits_val :: "string \<Rightarrow> int" where
  "digits_val ds = fold (\<lambda>c n. 10 * n + digit_val c) ds 0"

text \<open>
  \<open>strconv.ParseUint(s, 10, 64)\<close>: a syntax error on the empty string or a non-digit,
  a range error when the value does not fit 64 bits. The caller drops the value on
  either error, so both are \<open>None\<close>.
\<close>

definition ParseUint :: "string \<Rightarrow> 64 word option" where
  "ParseUint s =
     (if s = [] \<or> \<not> list_all is_digit s then None
      else if digits_val s < 2 ^ 64 then Some (word_of_int (digits_val s))
      else None)"

text \<open>
  \<open>strconv.Atoi\<close> where \<open>int\<close> has 64 bits, on a string without sign. The caller
  ignores the error and keeps the value: 0 after a syntax error, the largest \<open>int\<close>
  after a range error.
\<close>

definition Atoi :: "string \<Rightarrow> 64 word" where
  "Atoi s =
     (if s = [] \<or> \<not> list_all is_digit s then 0
      else if digits_val s < 2 ^ 63 then word_of_int (digits_val s)
      else word_of_int (2 ^ 63 - 1))"

text \<open>
  \<open>strconv.ParseFloat(s, 64)\<close> on a string of digits and dots, which is all the
  patterns capture: digits, at most one dot, digits, with one digit at least. A second
  dot ends the number before the end of the string, which is a syntax error. A value
  that rounds beyond the largest \<open>float64\<close> is a range error: \<open>f64_overflow\<close> holds from
  the midpoint between the largest \<open>float64\<close> and \<open>2^1024\<close> on.
\<close>

definition f64_overflow :: "rat \<Rightarrow> bool" where
  "f64_overflow v \<longleftrightarrow> v \<ge> 2 ^ 1024 - 2 ^ 970"

definition ParseFloat :: "string \<Rightarrow> rat option" where
  "ParseFloat s =
     (let ip = takeWhile is_digit s; rest = dropWhile is_digit s
      in case rest of
           [] \<Rightarrow> (if ip = [] then None
                  else if f64_overflow (of_int (digits_val ip)) then None
                  else Some (of_int (digits_val ip)))
         | c # fp \<Rightarrow>
             (if c \<noteq> CHR ''.'' \<or> \<not> list_all is_digit fp \<or> (ip = [] \<and> fp = []) then None
              else if f64_overflow (of_int (digits_val (ip @ fp)) / 10 ^ length fp) then None
              else Some (of_int (digits_val (ip @ fp)) / 10 ^ length fp)))"

subsection \<open>The regular expressions of the parser\<close>

text \<open>
  \<open>FindStringSubmatch\<close> returns the leftmost match. \<open>find_first\<close> tries a matcher at
  every start position from the left; a matcher decides whether the pattern matches at
  the head of its argument and returns the captured groups. In every pattern below a
  repetition is followed by a character outside its class, so the greedy repetition
  is the only way to match and no backtracking is lost.
\<close>

fun strip_prefix :: "string \<Rightarrow> string \<Rightarrow> string option" where
  "strip_prefix [] s = Some s"
| "strip_prefix (p # ps) [] = None"
| "strip_prefix (p # ps) (c # cs) = (if p = c then strip_prefix ps cs else None)"

fun find_first :: "(string \<Rightarrow> 'a option) \<Rightarrow> string \<Rightarrow> 'a option" where
  "find_first m [] = m []"
| "find_first m (c # cs) =
     (case m (c # cs) of Some r \<Rightarrow> Some r | None \<Rightarrow> find_first m cs)"

text \<open>\<open>strings.Contains\<close>.\<close>

definition Contains :: "string \<Rightarrow> string \<Rightarrow> bool" where
  "Contains s substr \<longleftrightarrow> find_first (strip_prefix substr) s \<noteq> None"

text \<open>
  \<open>key\s*(cls+)\<close> at the head of the string: the captured group and what follows it.
\<close>

definition match_field :: "string \<Rightarrow> (char \<Rightarrow> bool) \<Rightarrow> string \<Rightarrow> (string \<times> string) option" where
  "match_field key cls s =
     (case strip_prefix key s of
        None \<Rightarrow> None
      | Some r \<Rightarrow>
          (let r = dropWhile is_space r; g = takeWhile cls r
           in if g = [] then None else Some (g, dropWhile cls r)))"

text \<open>\<open>key\s*(cls+)suffix\<close> at the head of the string.\<close>

definition match_field_suffix ::
  "string \<Rightarrow> (char \<Rightarrow> bool) \<Rightarrow> string \<Rightarrow> string \<Rightarrow> string option" where
  "match_field_suffix key cls suffix s =
     (case match_field key cls s of
        None \<Rightarrow> None
      | Some (g, r) \<Rightarrow> (case strip_prefix suffix r of None \<Rightarrow> None | Some _ \<Rightarrow> Some g))"

text \<open>\<open>([0-9]{2})\<close> at the head of the string.\<close>

fun two_digits :: "string \<Rightarrow> (string \<times> string) option" where
  "two_digits (a # b # r) = (if is_digit a \<and> is_digit b then Some ([a, b], r) else None)"
| "two_digits _ = None"

text \<open>\<open>frame=\s*([0-9]+)\<close>\<close>

definition re_frame :: "string \<Rightarrow> string option" where
  "re_frame line = map_option fst (find_first (match_field ''frame='' is_digit) line)"

text \<open>\<open>q=\s*([0-9\.]+)\<close>\<close>

definition re_quantizer :: "string \<Rightarrow> string option" where
  "re_quantizer line = map_option fst (find_first (match_field ''q='' is_digit_or_dot) line)"

text \<open>\<open>size=\s*([0-9]+)kB\<close>\<close>

definition re_size :: "string \<Rightarrow> string option" where
  "re_size line = find_first (match_field_suffix ''size='' is_digit ''kB'') line"

text \<open>\<open>total_size=\s*([0-9]+)\<close>\<close>

definition re_sizeBytes :: "string \<Rightarrow> string option" where
  "re_sizeBytes line = map_option fst (find_first (match_field ''total_size='' is_digit) line)"

text \<open>\<open>time=\s*([0-9]+):([0-9]{2}):([0-9]{2})\.([0-9]+)\<close>, the four groups.\<close>

definition match_time :: "string \<Rightarrow> (string \<times> string \<times> string \<times> string) option" where
  "match_time s =
     (case match_field ''time='' is_digit s of
        None \<Rightarrow> None
      | Some (h, r) \<Rightarrow>
     (case strip_prefix '':'' r of
        None \<Rightarrow> None
      | Some r \<Rightarrow>
     (case two_digits r of
        None \<Rightarrow> None
      | Some (mm, r) \<Rightarrow>
     (case strip_prefix '':'' r of
        None \<Rightarrow> None
      | Some r \<Rightarrow>
     (case two_digits r of
        None \<Rightarrow> None
      | Some (ss, r) \<Rightarrow>
     (case strip_prefix ''.'' r of
        None \<Rightarrow> None
      | Some r \<Rightarrow>
          (let f = takeWhile is_digit r
           in if f = [] then None else Some (h, mm, ss, f))))))))"

definition re_time :: "string \<Rightarrow> (string \<times> string \<times> string \<times> string) option" where
  "re_time line = find_first match_time line"

text \<open>\<open>out_time_ms=\s*([0-9]+)\<close>\<close>

definition re_timeMs :: "string \<Rightarrow> string option" where
  "re_timeMs line = map_option fst (find_first (match_field ''out_time_ms='' is_digit) line)"

text \<open>\<open>speed=\s*([0-9\.]+)x\<close>\<close>

definition re_speed :: "string \<Rightarrow> string option" where
  "re_speed line = find_first (match_field_suffix ''speed='' is_digit_or_dot ''x'') line"

text \<open>
  \<open>a=\s*([0-9]+)|b=\s*([0-9]+)\<close>: at one position the first alternative is preferred.
  The result is the list of the two groups; the group of the alternative that did not
  take part is empty.
\<close>

definition match_alt :: "string \<Rightarrow> string \<Rightarrow> string \<Rightarrow> string list option" where
  "match_alt a b s =
     (case match_field a is_digit s of
        Some (g, _) \<Rightarrow> Some [g, []]
      | None \<Rightarrow>
          (case match_field b is_digit s of
             Some (g, _) \<Rightarrow> Some [[], g]
           | None \<Rightarrow> None))"

text \<open>\<open>drop=\s*([0-9]+)|drop_frames=\s*([0-9]+)\<close>\<close>

definition re_drop :: "string \<Rightarrow> string list option" where
  "re_drop line = find_first (match_alt ''drop='' ''drop_frames='') line"

text \<open>\<open>dup=\s*([0-9]+)|dup_frames=\s*([0-9]+)\<close>\<close>

definition re_dup :: "string \<Rightarrow> string list option" where
  "re_dup line = find_first (match_alt ''dup='' ''dup_frames='') line"

text \<open>
  The loop \<open>for i := 1; i < len(m); i++\<close> over the groups of \<open>drop\<close> and \<open>dup\<close>: the
  first group that is not empty and parses is taken.
\<close>

fun first_uint :: "string list \<Rightarrow> 64 word option" where
  "first_uint [] = None"
| "first_uint (g # gs) =
     (if g \<noteq> [] then (case ParseUint g of Some x \<Rightarrow> Some x | None \<Rightarrow> first_uint gs)
      else first_uint gs)"

subsection \<open>\<open>Parse\<close>, \<open>ResetStats\<close>, \<open>ResetLog\<close>, \<open>Log\<close>\<close>

text \<open>
  The value of \<open>time=H:MM:SS.F\<close>: \<open>h*3600+mm*60+s\<close> is computed in \<open>int\<close> (64 bits,
  wrapping) and converted to \<open>float64\<close>; the fraction is \<open>F\<close> over ten to the number of
  its digits when \<open>F\<close> parses as \<open>uint64\<close>, and 0 otherwise.
\<close>

definition time_value :: "string \<times> string \<times> string \<times> string \<Rightarrow> rat" where
  "time_value m =
     (case m of (m1, m2, m3, m4) \<Rightarrow>
        (let h = Atoi m1; mm = Atoi m2; s = Atoi m3;
             frac = (if length m4 > 0
                     then (case ParseUint m4 of
                             Some x \<Rightarrow> of_int (uint x) / 10 ^ length m4
                           | None \<Rightarrow> 0)
                     else 0)
         in of_int (sint (h * 3600 + mm * 60 + s)) + frac))"

definition upd_frame :: "string \<Rightarrow> Progress \<Rightarrow> Progress" where
  "upd_frame line pr =
     (case re_frame line of
        None \<Rightarrow> pr
      | Some m1 \<Rightarrow> (case ParseUint m1 of Some x \<Rightarrow> pr\<lparr>Frame := x\<rparr> | None \<Rightarrow> pr))"

definition upd_quantizer :: "string \<Rightarrow> Progress \<Rightarrow> Progress" where
  "upd_quantizer line pr =
     (case re_quantizer line of
        None \<Rightarrow> pr
      | Some m1 \<Rightarrow> (case ParseFloat m1 of Some x \<Rightarrow> pr\<lparr>Quantizer := x\<rparr> | None \<Rightarrow> pr))"

definition upd_size :: "string \<Rightarrow> Progress \<Rightarrow> Progress" where
  "upd_size line pr =
     (case re_size line of
        None \<Rightarrow> pr
      | Some m1 \<Rightarrow> (case ParseUint m1 of Some x \<Rightarrow> pr\<lparr>Size := x * 1024\<rparr> | None \<Rightarrow> pr))"

definition upd_sizeBytes :: "string \<Rightarrow> Progress \<Rightarrow> Progress" where
  "upd_sizeBytes line pr =
     (case re_sizeBytes line of
        None \<Rightarrow> pr
      | Some m1 \<Rightarrow> (case ParseUint m1 of Some x \<Rightarrow> pr\<lparr>Size := x\<rparr> | None \<Rightarrow> pr))"

definition upd_time :: "string \<Rightarrow> Progress \<Rightarrow> Progress" where
  "upd_time line pr =
     (case re_time line of
        None \<Rightarrow> pr
      | Some m \<Rightarrow> pr\<lparr>Time := time_value m\<rparr>)"

definition upd_timeMs :: "string \<Rightarrow> Progress \<Rightarrow> Progress" where
  "upd_timeMs line pr =
     (case re_timeMs line of
        None \<Rightarrow> pr
      | Some m1 \<Rightarrow>
          (case ParseUint m1 of
             Some x \<Rightarrow> pr\<lparr>Time := of_int (uint x) / 1000000\<rparr>
           | None \<Rightarrow> pr))"

definition upd_speed :: "string \<Rightarrow> Progress \<Rightarrow> Progress" where
  "upd_speed line pr =
     (case re_speed line of
        None \<Rightarrow> pr
      | Some m1 \<Rightarrow> (case ParseFloat m1 of Some x \<Rightarrow> pr\<lparr>Speed := x\<rparr> | None \<Rightarrow> pr))"

definition upd_drop :: "string \<Rightarrow> Progress \<Rightarrow> Progress" where
  "upd_drop line pr =
     (case re_drop line of
        None \<Rightarrow> pr
      | Some m \<Rightarrow> (case first_uint m of Some x \<Rightarrow> pr\<lparr>Drop := x\<rparr> | None \<Rightarrow> pr))"

definition upd_dup :: "string \<Rightarrow> Progress \<Rightarrow> Progress" where
  "upd_dup line pr =
     (case re_dup line of
        None \<Rightarrow> pr
      | Some m \<Rightarrow> (case first_uint m of Some x \<Rightarrow> pr\<lparr>Dup := x\<rparr> | None \<Rightarrow> pr))"

text \<open>
  \<open>Parse\<close> returns its \<open>uint64\<close> result and the parser after the call. Every line goes
  into the ring. A line without \<open>frame=\<close> returns 0 at once; otherwise the nine
  \<open>if m := ...\<close> blocks run in the order of the source and the stored \<open>Frame\<close> is
  returned.
\<close>

definition Parse :: "string \<Rightarrow> parser \<Rightarrow> 64 word \<times> parser" where
  "Parse line p =
     (let isProgress = Contains line ''frame='';
          p = p\<lparr>log_ring := ring_put line (log_ring p)\<rparr>
      in if \<not> isProgress then (0, p)
         else
           (let pr = progress p;
                pr = upd_frame line pr;
                pr = upd_quantizer line pr;
                pr = upd_size line pr;
                pr = upd_sizeBytes line pr;
                pr = upd_time line pr;
                pr = upd_timeMs line pr;
                pr = upd_speed line pr;
                pr = upd_drop line pr;
                pr = upd_dup line pr
            in (Frame pr, p\<lparr>progress := pr\<rparr>)))"

definition ResetStats :: "parser \<Rightarrow> parser" where
  "ResetStats p = p\<lparr>progress := Progress_zero\<rparr>"

definition ResetLog :: "parser \<Rightarrow> parser" where
  "ResetLog p = p\<lparr>log_ring := ring_New (logLines p)\<rparr>"

definition Log :: "parser \<Rightarrow> string list" where
  "Log p = concat (map (\<lambda>v. case v of None \<Rightarrow> [] | Some l \<Rightarrow> [l]) (log_ring p))"

text \<open>
  The nine update blocks of \<open>Parse\<close> in their order, as one function on the
  progress snapshot, and the value a captured group gives through \<open>ParseUint\<close>.
\<close>

definition parse_updates :: "string \<Rightarrow> Progress \<Rightarrow> Progress" where
  "parse_updates line pr =
     upd_dup line (upd_drop line (upd_speed line (upd_timeMs line (upd_time line
       (upd_sizeBytes line (upd_size line (upd_quantizer line (upd_frame line pr))))))))"

definition parse_field :: "string option \<Rightarrow> 64 word option" where
  "parse_field m = (case m of None \<Rightarrow> None | Some g \<Rightarrow> ParseUint g)"

section \<open>Process supervisor (package process)\<close>

text \<open>
  An \<open>error\<close> of the service: the five sentinel errors of package task, and an error
  made by \<open>fmt.Errorf\<close> or returned by the operating system, kept as its text.
\<close>

datatype error =
    ErrNotFound
  | ErrTaskExists
  | ErrInvalidConfig
  | ErrInvalidInputAddress
  | ErrInvalidOutputAddress
  | Errorf string

text \<open>\<open>stateType\<close> is a Go string type with six named constants.\<close>

type_synonym stateType = string

definition stateFinished :: stateType where "stateFinished = ''finished''"
definition stateStarting :: stateType where "stateStarting = ''starting''"
definition stateRunning :: stateType where "stateRunning = ''running''"
definition stateFinishing :: stateType where "stateFinishing = ''finishing''"
definition stateFailed :: stateType where "stateFailed = ''failed''"
definition stateKilled :: stateType where "stateKilled = ''killed''"

definition IsRunning :: "stateType \<Rightarrow> bool" where
  "IsRunning s \<longleftrightarrow> s = stateStarting \<or> s = stateRunning \<or> s = stateFinishing"

record States =
  Finished :: "64 word"
  Starting :: "64 word"
  Running :: "64 word"
  Finishing :: "64 word"
  Failed :: "64 word"
  Killed :: "64 word"

text \<open>
  The \<open>Parser\<close> interface has two implementations: \<open>nullParser\<close>, which \<open>New\<close> installs
  when the configuration carries none, and the progress parser of package parse.
\<close>

datatype Parser = NullParser | ProgressParser parser

definition Parser_Parse :: "string \<Rightarrow> Parser \<Rightarrow> 64 word \<times> Parser" where
  "Parser_Parse line ps =
     (case ps of
        NullParser \<Rightarrow> (1, NullParser)
      | ProgressParser q \<Rightarrow> (fst (Parse line q), ProgressParser (snd (Parse line q))))"

definition Parser_ResetStats :: "Parser \<Rightarrow> Parser" where
  "Parser_ResetStats ps =
     (case ps of NullParser \<Rightarrow> NullParser | ProgressParser q \<Rightarrow> ProgressParser (ResetStats q))"

definition Parser_ResetLog :: "Parser \<Rightarrow> Parser" where
  "Parser_ResetLog ps =
     (case ps of NullParser \<Rightarrow> NullParser | ProgressParser q \<Rightarrow> ProgressParser (ResetLog q))"

text \<open>
  A \<open>*time.Timer\<close> field is \<open>nil\<close> (\<open>None\<close>) or points at a timer that has still to
  fire (\<open>Pending\<close>) or has fired (\<open>Expired\<close>).
\<close>

datatype timer = Pending | Expired

text \<open>
  The state of one \<open>process\<close>. The fields follow the Go struct: \<open>state\<close>, \<open>states\<close>
  are \<open>p.state.state\<close> and \<open>p.state.states\<close>, \<open>order\<close> is \<open>p.order.order\<close>,
  \<open>stale_timeout\<close> and \<open>stale_cancel\<close> are \<open>p.stale.timeout\<close> and whether
  \<open>p.stale.cancel\<close> is set, \<open>reconn_enable\<close>, \<open>reconn_delay\<close>, \<open>reconn_timer\<close> are
  \<open>p.reconn\<close>. Durations are \<open>int64\<close> nanoseconds.

  What the Go runtime holds outside the struct is made explicit: \<open>changes\<close> lists the
  calls of \<open>onStateChange\<close> in order, one pair \<open>(from, to)\<close> for each committed
  transition; \<open>readers\<close> and \<open>stalers\<close> count the reader and staler goroutines that have
  been started and have not returned. Wall-clock stamps (\<open>state.time\<close>, \<open>stale.last\<close>),
  the resource sampler and the \<open>onStart\<close>/\<open>onExit\<close> callbacks are left out: no
  operation below branches on them.
\<close>

record process =
  binary :: string
  args :: "string list"
  pid :: "32 word"
  state :: stateType
  states :: States
  changes :: "(string \<times> string) list"
  order :: string
  parser :: Parser
  stale_timeout :: "64 word"
  stale_cancel :: bool
  reconn_enable :: bool
  reconn_delay :: "64 word"
  reconn_timer :: "timer option"
  killTimer :: "timer option"
  readers :: nat
  stalers :: nat

text \<open>The \<open>Config\<close> of package process; its fields carry the prefix \<open>pc_\<close>.\<close>

record process_Config =
  pc_Binary :: string
  pc_Args :: "string list"
  pc_Reconnect :: bool
  pc_ReconnectDelay :: "64 word"
  pc_StaleTimeout :: "64 word"
  pc_Parser :: "Parser option"

definition New_process :: "process_Config \<Rightarrow> error + process" where
  "New_process config =
     (if length (pc_Binary config) = 0 then Inl (Errorf ''no valid binary given'')
      else Inr \<lparr>binary = pc_Binary config,
                args = pc_Args config,
                pid = 0,
                state = stateFinished,
                states = \<lparr>Finished = 0, Starting = 0, Running = 0, Finishing = 0,
                           Failed = 0, Killed = 0\<rparr>,
                changes = [],
                order = ''stop'',
                parser = (case pc_Parser config of None \<Rightarrow> NullParser | Some ps \<Rightarrow> ps),
                stale_timeout = pc_StaleTimeout config,
                stale_cancel = False,
                reconn_enable = pc_Reconnect config,
                reconn_delay = pc_ReconnectDelay config,
                reconn_timer = None,
                killTimer = None,
                readers = 0,
                stalers = 0\<rparr>)"

subsection \<open>\<open>setState\<close>\<close>

text \<open>
  The increment of the counter of the destination state, as the inner \<open>if\<close> chains and
  \<open>switch\<close> of \<open>setState\<close> select it, and the commit that every accepting branch ends
  in: the new state, the counter, and the \<open>onStateChange\<close> call after the \<open>switch\<close>.
\<close>

definition commit :: "stateType \<Rightarrow> (States \<Rightarrow> States) \<Rightarrow> process \<Rightarrow> error option \<times> process" where
  "commit st count p =
     (None, p\<lparr>state := st, states := count (states p),
              changes := changes p @ [(state p, st)]\<rparr>)"

definition refuse :: "stateType \<Rightarrow> process \<Rightarrow> error option \<times> process" where
  "refuse st p = (Some (Errorf (''can't change from '' @ state p @ '' to '' @ st)), p)"

text \<open>
  \<open>setState\<close>, branch for branch. The outer \<open>switch\<close> is on the current state, the inner
  tests on the requested one; a current state that is none of the six constants falls
  to \<open>default\<close>.
\<close>

definition setState :: "stateType \<Rightarrow> process \<Rightarrow> error option \<times> process" where
  "setState st p =
     (if state p = stateFinished then
        (if st = stateStarting then commit st (\<lambda>c. c\<lparr>Starting := Starting c + 1\<rparr>) p
         else refuse st p)
      else if state p = stateStarting then
        (if st = stateFinishing \<or> st = stateRunning \<or> st = stateFailed then
           (if st = stateFinishing then commit st (\<lambda>c. c\<lparr>Finishing := Finishing c + 1\<rparr>) p
            else if st = stateRunning then commit st (\<lambda>c. c\<lparr>Running := Running c + 1\<rparr>) p
            else commit st (\<lambda>c. c\<lparr>Failed := Failed c + 1\<rparr>) p)
         else refuse st p)
      else if state p = stateRunning then
        (if st = stateFinished then commit st (\<lambda>c. c\<lparr>Finished := Finished c + 1\<rparr>) p
         else if st = stateFinishing then commit st (\<lambda>c. c\<lparr>Finishing := Finishing c + 1\<rparr>) p
         else if st = stateFailed then commit st (\<lambda>c. c\<lparr>Failed := Failed c + 1\<rparr>) p
         else if st = stateKilled then commit st (\<lambda>c. c\<lparr>Killed := Killed c + 1\<rparr>) p
         else refuse st p)
      else if state p = stateFinishing then
        (if st = stateFinished \<or> st = stateFailed \<or> st = stateKilled then
           (if st = stateFinished then commit st (\<lambda>c. c\<lparr>Finished := Finished c + 1\<rparr>) p
            else if st = stateFailed then commit st (\<lambda>c. c\<lparr>Failed := Failed c + 1\<rparr>) p
            else commit st (\<lambda>c. c\<lparr>Killed := Killed c + 1\<rparr>) p)
         else refuse st p)
      else if state p = stateFailed \<or> state p = stateKilled then
        (if st = stateStarting then commit st (\<lambda>c. c\<lparr>Starting := Starting c + 1\<rparr>) p
         else refuse st p)
      else (Some (Errorf (''unhandled state: '' @ state p)), p))"

subsection \<open>The environment of a process\<close>

text \<open>
  What the operating system answers is an argument of the operation that asks.
  \<open>spawn\<close> is the outcome of \<open>StderrPipe\<close> followed by \<open>cmd.Start\<close>: either call may fail
  with an error text, or the child runs with a process id.
\<close>

datatype spawn = PipeError string | StartError string | Spawned "32 word"

text \<open>
  \<open>signal\<close> is the outcome of \<open>Process.Signal(os.Interrupt)\<close> and, when that fails, of
  \<open>Process.Kill()\<close>: the interrupt is delivered, or it fails and the kill succeeds,
  or both fail and the error of the kill remains. The model takes the branch of
  \<open>stop\<close> for systems other than Windows.
\<close>

datatype signal = Interrupted | KilledInstead | SignalError string

text \<open>
  \<open>wait\<close> is what \<open>cmd.Wait()\<close> returns: \<open>nil\<close>, an \<open>*exec.ExitError\<close> whose wait status
  says \<open>Exited()\<close> with an exit status or does not, or another error.
\<close>

datatype wait_status = Exited nat | NotExited

datatype wait = WaitNil | WaitExitError wait_status | WaitOtherError

text \<open>
  How a child ends, and what \<open>os/exec\<close> makes of it: \<open>Wait\<close> returns \<open>nil\<close> for exit
  code 0, and an \<open>ExitError\<close> for every other exit code and for a death by signal.
\<close>

datatype child_end = ExitCode nat | BySignal

definition cmd_Wait :: "child_end \<Rightarrow> wait" where
  "cmd_Wait t =
     (case t of
        ExitCode c \<Rightarrow> (if c = 0 then WaitNil else WaitExitError (Exited c))
      | BySignal \<Rightarrow> WaitExitError NotExited)"

subsection \<open>\<open>reconnect\<close>, \<open>start\<close>, \<open>waiter\<close>, \<open>reader\<close>, \<open>stop\<close>\<close>

definition unreconnect :: "process \<Rightarrow> process" where
  "unreconnect p = (if reconn_timer p \<noteq> None then p\<lparr>reconn_timer := None\<rparr> else p)"

definition reconnect :: "process \<Rightarrow> process" where
  "reconnect p =
     (if \<not> reconn_enable p then p
      else (unreconnect p)\<lparr>reconn_timer := Some Pending\<rparr>)"

text \<open>
  \<open>start\<close>. The results of the \<open>setState\<close> calls are discarded as in the source. A
  successful spawn starts the reader goroutine and, with a stale timeout, a staler.
\<close>

definition spawn_failed :: "string \<Rightarrow> process \<Rightarrow> error option \<times> process" where
  "spawn_failed err p =
     (let p = snd (setState stateFailed p);
          p = p\<lparr>parser := snd (Parser_Parse err (parser p))\<rparr>;
          p = reconnect p
      in (Some (Errorf err), p))"

definition start :: "spawn \<Rightarrow> process \<Rightarrow> error option \<times> process" where
  "start sp p =
     (if IsRunning (state p) then (None, p)
      else
        (let p = unreconnect p;
             p = snd (setState stateStarting p)
         in case sp of
              PipeError err \<Rightarrow> spawn_failed err p
            | StartError err \<Rightarrow> spawn_failed err p
            | Spawned n \<Rightarrow>
                (let p = p\<lparr>pid := n\<rparr>;
                     p = snd (setState stateRunning p);
                     p = p\<lparr>readers := Suc (readers p)\<rparr>;
                     p = (if stale_timeout p \<noteq> 0
                          then p\<lparr>stale_cancel := True, stalers := Suc (stalers p)\<rparr>
                          else p)
                 in (None, p))))"

definition Start :: "spawn \<Rightarrow> process \<Rightarrow> error option \<times> process" where
  "Start sp p =
     (if order p = ''start'' then (None, p)
      else start sp (p\<lparr>order := ''start''\<rparr>))"

text \<open>
  \<open>waiter\<close>: the classification of \<open>cmd.Wait()\<close>, then the kill timer and the staler
  are cancelled, the statistics reset, and a reconnect is scheduled when the order is
  \<open>start\<close>. The goroutine that ran it returns.
\<close>

definition waiter :: "wait \<Rightarrow> process \<Rightarrow> process" where
  "waiter w p =
     (let p = (case w of
                 WaitNil \<Rightarrow> snd (setState stateFinished p)
               | WaitExitError status \<Rightarrow>
                   (case status of
                      Exited code \<Rightarrow>
                        (if code = 255 then snd (setState stateFinished p)
                         else snd (setState stateFailed p))
                    | NotExited \<Rightarrow> snd (setState stateKilled p))
               | WaitOtherError \<Rightarrow> snd (setState stateKilled p));
          p = (if killTimer p \<noteq> None then p\<lparr>killTimer := None\<rparr> else p);
          p = (if stale_cancel p then p\<lparr>stale_cancel := False, stalers := stalers p - 1\<rparr>
               else p);
          p = p\<lparr>parser := Parser_ResetStats (parser p)\<rparr>;
          p = (if order p = ''start'' then reconnect p else p)
      in p\<lparr>readers := readers p - 1\<rparr>)"

text \<open>
  \<open>reader\<close>: the two resets, \<open>Parse\<close> for every line the child writes until its
  stream ends, then \<open>waiter\<close>. The goroutine is taken as one step at the end of the
  child: \<open>lines\<close> is all that the child wrote.
\<close>

definition reader :: "string list \<Rightarrow> wait \<Rightarrow> process \<Rightarrow> process" where
  "reader lines w p =
     (let p = p\<lparr>parser := Parser_ResetStats (parser p)\<rparr>;
          p = p\<lparr>parser := Parser_ResetLog (parser p)\<rparr>;
          p = fold (\<lambda>line p. p\<lparr>parser := snd (Parser_Parse line (parser p))\<rparr>) lines p
      in waiter w p)"

text \<open>
  \<open>stop\<close>. With \<open>wait\<close> set and the signal delivered, the caller blocks until the
  waiter has run, so the reader's remaining work (\<open>lines\<close>, \<open>w\<close>) happens inside the
  call; without a live reader the call would block for ever, and the model returns
  the state in which it blocks.
\<close>

definition stop :: "bool \<Rightarrow> signal \<Rightarrow> string list \<Rightarrow> wait \<Rightarrow> process \<Rightarrow> error option \<times> process" where
  "stop wait sg lines w p =
     (if \<not> IsRunning (state p) then (None, unreconnect p)
      else if state p = stateFinishing then (None, p)
      else
        (let p = snd (setState stateFinishing p)
         in case sg of
              Interrupted \<Rightarrow>
                (let p = p\<lparr>killTimer := Some Pending\<rparr>
                 in (None, if wait \<and> readers p > 0 then reader lines w p else p))
            | KilledInstead \<Rightarrow>
                (None, if wait \<and> readers p > 0 then reader lines w p else p)
            | SignalError err \<Rightarrow>
                (let p = p\<lparr>parser := snd (Parser_Parse err (parser p))\<rparr>;
                     p = snd (setState stateFailed p)
                 in (Some (Errorf err), p))))"

definition Stop :: "bool \<Rightarrow> signal \<Rightarrow> string list \<Rightarrow> wait \<Rightarrow> process \<Rightarrow> error option \<times> process" where
  "Stop wait sg lines w p =
     (if order p = ''stop'' then (None, p)
      else stop wait sg lines w (p\<lparr>order := ''stop''\<rparr>))"

definition Kill :: "bool \<Rightarrow> signal \<Rightarrow> string list \<Rightarrow> wait \<Rightarrow> process \<Rightarrow> error option \<times> process" where
  "Kill wait sg lines w p =
     (if \<not> IsRunning (state p) then (None, p)
      else stop wait sg lines w p)"

subsection \<open>Sequences of lifecycle operations\<close>

text \<open>
  One step of a process: a call of \<open>Start\<close>, \<open>Stop\<close> or \<open>Kill\<close> with what the system
  answers, or one of the internal events. \<open>TimerFires\<close> is the reconnect timer running
  its function, which calls \<open>start\<close>; it is enabled while the timer is pending.
  \<open>ChildEnds\<close> is a reader goroutine reaching the end of the stream and running the
  waiter; it is enabled while a reader is alive. \<open>StalerFires\<close> is a staler goroutine
  finding the process stale and calling \<open>stop(false)\<close>; it is enabled while a staler is
  alive. An event that is not enabled leaves the process as it is.
\<close>

datatype op =
    OpStart spawn
  | OpStop bool signal "string list" wait
  | OpKill bool signal "string list" wait
  | TimerFires spawn
  | ChildEnds "string list" wait
  | StalerFires signal

definition step :: "op \<Rightarrow> process \<Rightarrow> process" where
  "step ev p =
     (case ev of
        OpStart sp \<Rightarrow> snd (Start sp p)
      | OpStop wait sg lines w \<Rightarrow> snd (Stop wait sg lines w p)
      | OpKill wait sg lines w \<Rightarrow> snd (Kill wait sg lines w p)
      | TimerFires sp \<Rightarrow>
          (if reconn_timer p = Some Pending
           then snd (start sp (p\<lparr>reconn_timer := Some Expired\<rparr>))
           else p)
      | ChildEnds lines w \<Rightarrow> (if readers p > 0 then reader lines w p else p)
      | StalerFires sg \<Rightarrow>
          (if stalers p > 0
           then snd (stop False sg [] WaitNil (p\<lparr>stalers := stalers p - 1\<rparr>))
           else p))"

definition run :: "op list \<Rightarrow> process \<Rightarrow> process" where
  "run evs p = fold step evs p"

text \<open>
  The legal transitions. \<open>spec_transition\<close> is the table of section 4.3 of the
  specification, row by row; \<open>code_transition\<close> adds the one pair that \<open>setState\<close>
  accepts beyond it.
\<close>

definition spec_transition :: "stateType \<Rightarrow> stateType \<Rightarrow> bool" where
  "spec_transition a b \<longleftrightarrow>
     (a = stateFinished \<and> b = stateStarting) \<or>
     (a = stateStarting \<and> b = stateRunning) \<or>
     (a = stateStarting \<and> b = stateFailed) \<or>
     (a = stateRunning \<and> b = stateFinished) \<or>
     (a = stateRunning \<and> b = stateFailed) \<or>
     (a = stateRunning \<and> b = stateKilled) \<or>
     (a = stateRunning \<and> b = stateFinishing) \<or>
     (a = stateFinishing \<and> (b = stateFinished \<or> b = stateFailed \<or> b = stateKilled)) \<or>
     ((a = stateFailed \<or> a = stateKilled) \<and> b = stateStarting)"

definition code_transition :: "stateType \<Rightarrow> stateType \<Rightarrow> bool" where
  "code_transition a b \<longleftrightarrow>
     spec_transition a b \<or> (a = stateStarting \<and> b = stateFinishing)"

definition valid_state :: "stateType \<Rightarrow> bool" where
  "valid_state s \<longleftrightarrow>
     s \<in> {stateFinished, stateStarting, stateRunning, stateFinishing, stateFailed, stateKilled}"

text \<open>
  A list of transitions is a chain from one state to another when each transition
  starts where the one before it ended.
\<close>

fun path :: "stateType \<Rightarrow> (stateType \<times> stateType) list \<Rightarrow> stateType \<Rightarrow> bool" where
  "path s [] t \<longleftrightarrow> s = t"
| "path s ((a, b) # xs) t \<longleftrightarrow> a = s \<and> path b xs t"

text \<open>
  The invariant of the supervisor: the state is one of the six, the recorded
  transitions are a chain from \<open>finished\<close> to the state, and all of them are rows of
  the table of the specification. Between two operations the state is moreover not
  \<open>starting\<close>, which \<open>start\<close> enters and leaves within one call.
\<close>

definition Inv0 :: "process \<Rightarrow> bool" where
  "Inv0 p \<longleftrightarrow>
     valid_state (state p) \<and>
     path stateFinished (changes p) (state p) \<and>
     list_all (\<lambda>(a, b). spec_transition a b) (changes p)"

definition Inv :: "process \<Rightarrow> bool" where
  "Inv p \<longleftrightarrow> Inv0 p \<and> state p \<noteq> stateStarting"


definition demo_process :: process where
  "demo_process =
     \<lparr>binary = ''/usr/bin/ffmpeg'', args = [''-i'', ''in.mp4'', ''out.mp4''], pid = 0,
      state = stateFinished,
      states = \<lparr>Finished = 0, Starting = 0, Running = 0, Finishing = 0, Failed = 0, Killed = 0\<rparr>,
      changes = [], order = ''stop'', parser = ProgressParser (New_parser 3),
      stale_timeout = 0, stale_cancel = False, reconn_enable = False, reconn_delay = 0,
      reconn_timer = None, killTimer = None, readers = 0, stalers = 0\<rparr>"

section \<open>The \<open>FFmpeg\<close> facade and the task store (packages ffmpeg and task)\<close>

text \<open>
  What the store uses of the \<open>ffmpeg\<close> struct: the resolved binary, the two validators
  and the number of log lines (the skills play no part in the store).
\<close>

record ffmpeg =
  ff_binary :: string
  ff_validatorIn :: validator
  ff_validatorOut :: validator
  ff_logLines :: int

definition ValidateInput :: "ffmpeg \<Rightarrow> string \<Rightarrow> bool" where
  "ValidateInput f address = IsValid (ff_validatorIn f) address"

definition ValidateOutput :: "ffmpeg \<Rightarrow> string \<Rightarrow> bool" where
  "ValidateOutput f address = IsValid (ff_validatorOut f) address"

definition NewParser :: "ffmpeg \<Rightarrow> parser" where
  "NewParser f = New_parser (ff_logLines f)"

text \<open>
  \<open>ProcessConfig\<close> of package ffmpeg, with the prefix \<open>fc_\<close>, and the method \<open>New\<close> of
  the facade, which hands it to \<open>process.New\<close> together with the binary.
\<close>

record ProcessConfig =
  fc_Reconnect :: bool
  fc_ReconnectDelay :: "64 word"
  fc_StaleTimeout :: "64 word"
  fc_Command :: "string list"
  fc_Parser :: "Parser option"

definition ffmpeg_New :: "ffmpeg \<Rightarrow> ProcessConfig \<Rightarrow> error + process" where
  "ffmpeg_New f config =
     New_process \<lparr>pc_Binary = ff_binary f,
                  pc_Args = fc_Command config,
                  pc_Reconnect = fc_Reconnect config,
                  pc_ReconnectDelay = fc_ReconnectDelay config,
                  pc_StaleTimeout = fc_StaleTimeout config,
                  pc_Parser = fc_Parser config\<rparr>"

text \<open>
  A \<open>Task\<close>, fields prefixed \<open>t_\<close>. The Go struct holds the process and, in a second
  field, the parser that the process was given; both point at one parser, which the
  model keeps inside \<open>t_proc\<close>. The times are Unix seconds.
\<close>

record Task =
  t_ID :: string
  t_Reference :: string
  t_Config :: Config
  t_CreatedAt :: int
  t_UpdatedAt :: int
  t_Order :: string
  t_proc :: process

record store =
  st_ffmpeg :: ffmpeg
  tasks :: "string \<rightharpoonup> Task"

text \<open>
  The two validation loops of \<open>Add\<close> and \<open>Update\<close>: \<open>True\<close> when the loop runs to its
  end, \<open>False\<close> when it returns the error at the first rejected address.
\<close>

fun inputs_valid :: "ffmpeg \<Rightarrow> ConfigIO list \<Rightarrow> bool" where
  "inputs_valid f [] = True"
| "inputs_valid f (inp # rest) =
     (if \<not> ValidateInput f (io_Address inp) then False else inputs_valid f rest)"

fun outputs_valid :: "ffmpeg \<Rightarrow> ConfigIO list \<Rightarrow> bool" where
  "outputs_valid f [] = True"
| "outputs_valid f (out # rest) =
     (if \<not> ValidateOutput f (io_Address out) then False else outputs_valid f rest)"

text \<open>
  The process configuration that \<open>Add\<close> and \<open>Update\<close> build: the delays are
  \<open>time.Duration(seconds) * time.Second\<close>, a multiplication of 64-bit integers.
\<close>

definition task_ProcessConfig :: "ffmpeg \<Rightarrow> Config \<Rightarrow> ProcessConfig" where
  "task_ProcessConfig f config =
     \<lparr>fc_Reconnect = cfg_Reconnect config,
      fc_ReconnectDelay = cfg_ReconnectDelay config * 1000000000,
      fc_StaleTimeout = cfg_StaleTimeout config * 1000000000,
      fc_Command = CreateCommand config,
      fc_Parser = Some (ProgressParser (NewParser f))\<rparr>"

text \<open>
  \<open>Add\<close>. \<open>uuid\<close> is what \<open>shortuuid.New()\<close> returns and \<open>now\<close> what
  \<open>time.Now().Unix()\<close> returns. The result is the returned pair and the store after
  the call. With \<open>Autostart\<close> the source launches \<open>go task.proc.Start()\<close>: that call
  runs after \<open>Add\<close> has returned and is a later operation on the process of the task,
  so here only the order of the task records it.
\<close>

definition Add :: "Config \<Rightarrow> string \<Rightarrow> int \<Rightarrow> store \<Rightarrow> (error + Task) \<times> store" where
  "Add config uuid now s =
     (let config = (if length (cfg_ID config) = 0 then config\<lparr>cfg_ID := uuid\<rparr> else config)
      in if length (cfg_Input config) = 0 \<or> length (cfg_Output config) = 0
         then (Inl ErrInvalidConfig, s)
         else if \<not> inputs_valid (st_ffmpeg s) (cfg_Input config)
         then (Inl ErrInvalidInputAddress, s)
         else if \<not> outputs_valid (st_ffmpeg s) (cfg_Output config)
         then (Inl ErrInvalidOutputAddress, s)
         else if tasks s (cfg_ID config) \<noteq> None
         then (Inl ErrTaskExists, s)
         else
           (case ffmpeg_New (st_ffmpeg s) (task_ProcessConfig (st_ffmpeg s) config) of
              Inl err \<Rightarrow> (Inl err, s)
            | Inr proc \<Rightarrow>
                (let task = \<lparr>t_ID = cfg_ID config,
                             t_Reference = cfg_Reference config,
                             t_Config = config,
                             t_CreatedAt = now,
                             t_UpdatedAt = now,
                             t_Order = ''stop'',
                             t_proc = proc\<rparr>;
                     task = (if cfg_Autostart config then task\<lparr>t_Order := ''start''\<rparr>
                             else task)
                 in (Inr task, s\<lparr>tasks := (tasks s)(cfg_ID config \<mapsto> task)\<rparr>))))"

definition Get :: "string \<Rightarrow> store \<Rightarrow> error + Task" where
  "Get ident s = (case tasks s ident of None \<Rightarrow> Inl ErrNotFound | Some t \<Rightarrow> Inr t)"




text \<open>The identifier under which \<open>Add\<close> files a configuration.\<close>

definition assigned_ID :: "Config \<Rightarrow> string \<Rightarrow> string" where
  "assigned_ID config uuid = (if cfg_ID config = [] then uuid else cfg_ID config)"

text \<open>
  A facade, a task configuration and a store holding one task for the examples: inputs
  under \<open>/etc/\<close> are blocked, outputs must lie under \<open>/data/\<close>.
\<close>

definition demo_ffmpeg :: ffmpeg where
  "demo_ffmpeg =
     \<lparr>ff_binary = ''/usr/bin/ffmpeg'',
      ff_validatorIn = \<lparr>allow = [], block = [\<lambda>a. take 5 a = ''/etc/'']\<rparr>,
      ff_validatorOut = \<lparr>allow = [\<lambda>a. take 6 a = ''/data/''], block = []\<rparr>,
      ff_logLines = 3\<rparr>"

definition demo_task_config :: Config where
  "demo_task_config =
     \<lparr>cfg_ID = ''t1'', cfg_Reference = ''ref-a'',
      cfg_Input = [\<lparr>io_ID = ''in'', io_Address = ''/data/in.mp4'', io_Options = []\<rparr>],
      cfg_Output = [\<lparr>io_ID = ''out'', io_Address = ''/data/out.mp4'',
                    io_Options = [''-c:v'', ''libx264'']\<rparr>],
      cfg_Options = [''-y''], cfg_Reconnect = False, cfg_ReconnectDelay = 0,
      cfg_Autostart = False, cfg_StaleTimeout = 0, cfg_LimitCPU = 0, cfg_LimitMemory = 0,
      cfg_LimitWaitFor = 0\<rparr>"

definition demo_store :: store where
  "demo_store = snd (Add demo_task_config ''uuid'' 100 \<lparr>st_ffmpeg = demo_ffmpeg, tasks = Map.empty\<rparr>)"

section \<open>Properties of the derived command\<close>

lemma fold_input_append:
  "fold (\<lambda>inp cmd. (cmd @ io_Options inp) @ [''-i'', io_Address inp]) xs acc =
   acc @ concat (map (\<lambda>inp. io_Options inp @ [''-i'', io_Address inp]) xs)"
  by (induction xs arbitrary: acc) simp_all

lemma fold_output_append:
  "fold (\<lambda>out cmd. (cmd @ io_Options out) @ [io_Address out]) xs acc =
   acc @ concat (map (\<lambda>out. io_Options out @ [io_Address out]) xs)"
  by (induction xs arbitrary: acc) simp_all

text \<open>
  Claim C2. For every configuration, \<open>CreateCommand\<close> returns the global options,
  then for each input in order its options, \<open>-i\<close> and its address, then for each output
  in order its options and its address. The result is a function of the configuration
  alone, so equal configurations give equal argument lists.
\<close>

theorem CreateCommand_layout:
  "CreateCommand c =
     cfg_Options c
     @ concat (map (\<lambda>inp. io_Options inp @ [''-i'', io_Address inp]) (cfg_Input c))
     @ concat (map (\<lambda>out. io_Options out @ [io_Address out]) (cfg_Output c))"
  unfolding CreateCommand_def Let_def fold_input_append fold_output_append by simp

section \<open>Properties of the validator\<close>

lemma block_loop_iff: "block_loop es text \<longleftrightarrow> (\<exists>e \<in> set es. e text)"
  by (induction es) auto

lemma allow_loop_iff: "allow_loop es text \<longleftrightarrow> (\<exists>e \<in> set es. e text)"
  by (induction es) auto

text \<open>
  Claim C8. An address is invalid as soon as one block expression matches it. When no
  block expression matches, it is valid if the allow list is empty, and otherwise
  exactly when some allow expression matches. The block list is consulted first.
\<close>

theorem IsValid_block_then_allow:
  "IsValid v text \<longleftrightarrow>
     \<not> (\<exists>e \<in> set (block v). e text) \<and>
     (allow v = [] \<or> (\<exists>e \<in> set (allow v). e text))"
  by (auto simp: IsValid_def block_loop_iff allow_loop_iff)

theorem IsValid_block_then_allow_witness:
  "IsValid \<lparr>allow = [\<lambda>s. take 1 s = ''/''], block = [\<lambda>s. s = ''/etc/passwd'']\<rparr> ''/data/in.mp4''
   \<and> \<not> IsValid \<lparr>allow = [\<lambda>s. take 1 s = ''/''], block = [\<lambda>s. s = ''/etc/passwd'']\<rparr> ''/etc/passwd''
   \<and> \<not> IsValid \<lparr>allow = [\<lambda>s. take 1 s = ''/''], block = [\<lambda>s. s = ''/etc/passwd'']\<rparr> ''rtmp://x''
   \<and> IsValid \<lparr>allow = [], block = [\<lambda>s. s = ''/etc/passwd'']\<rparr> ''rtmp://x''"
  using IsValid_block_then_allow
          [of "\<lparr>allow = [\<lambda>s. take 1 s = ''/''], block = [\<lambda>s. s = ''/etc/passwd'']\<rparr>" "''/data/in.mp4''"]
        IsValid_block_then_allow
          [of "\<lparr>allow = [\<lambda>s. take 1 s = ''/''], block = [\<lambda>s. s = ''/etc/passwd'']\<rparr>" "''/etc/passwd''"]
        IsValid_block_then_allow
          [of "\<lparr>allow = [\<lambda>s. take 1 s = ''/''], block = [\<lambda>s. s = ''/etc/passwd'']\<rparr>" "''rtmp://x''"]
        IsValid_block_then_allow
          [of "\<lparr>allow = [], block = [\<lambda>s. s = ''/etc/passwd'']\<rparr>" "''rtmp://x''"]
  by simp

section \<open>Properties of the parser\<close>

text \<open>
  A value below \<open>2^64\<close> is far from the range error; this equation decides the small
  case without computing the bound.
\<close>

lemma f64_overflow_code [code]:
  "f64_overflow v \<longleftrightarrow> (if v < 2 ^ 64 then False else v \<ge> 2 ^ 1024 - 2 ^ 970)"
proof -
  have "(2::rat) ^ 64 \<le> 2 ^ 1024 - 2 ^ 970"
    by simp
  then show ?thesis
    by (auto simp: f64_overflow_def)
qed

lemma Parse_not_progress:
  "\<not> Contains line ''frame='' \<Longrightarrow> Parse line p = (0, p\<lparr>log_ring := ring_put line (log_ring p)\<rparr>)"
  by (simp add: Parse_def Let_def)

lemma Parse_progress:
  "Contains line ''frame='' \<Longrightarrow>
   Parse line p =
     (Frame (parse_updates line (progress p)),
      p\<lparr>log_ring := ring_put line (log_ring p), progress := parse_updates line (progress p)\<rparr>)"
  by (simp add: Parse_def Let_def parse_updates_def)

lemma find_first_field_prefix:
  "find_first (match_field key cls) s = Some r \<Longrightarrow> find_first (strip_prefix key) s \<noteq> None"
  by (induction s) (auto simp: match_field_def split: option.splits)

lemma re_frame_Contains: "re_frame line = Some m \<Longrightarrow> Contains line ''frame=''"
  by (auto simp: re_frame_def Contains_def dest: find_first_field_prefix)

lemma Frame_upd [simp]:
  "Frame (upd_quantizer line pr) = Frame pr"
  "Frame (upd_size line pr) = Frame pr"
  "Frame (upd_sizeBytes line pr) = Frame pr"
  "Frame (upd_time line pr) = Frame pr"
  "Frame (upd_timeMs line pr) = Frame pr"
  "Frame (upd_speed line pr) = Frame pr"
  "Frame (upd_drop line pr) = Frame pr"
  "Frame (upd_dup line pr) = Frame pr"
  by (simp_all add: upd_quantizer_def upd_size_def upd_sizeBytes_def upd_time_def
        upd_timeMs_def upd_speed_def upd_drop_def upd_dup_def split: option.splits)

lemma Size_upd [simp]:
  "Size (upd_frame line pr) = Size pr"
  "Size (upd_quantizer line pr) = Size pr"
  "Size (upd_time line pr) = Size pr"
  "Size (upd_timeMs line pr) = Size pr"
  "Size (upd_speed line pr) = Size pr"
  "Size (upd_drop line pr) = Size pr"
  "Size (upd_dup line pr) = Size pr"
  by (simp_all add: upd_frame_def upd_quantizer_def upd_time_def
        upd_timeMs_def upd_speed_def upd_drop_def upd_dup_def split: option.splits)

lemma Time_upd [simp]:
  "Time (upd_frame line pr) = Time pr"
  "Time (upd_quantizer line pr) = Time pr"
  "Time (upd_size line pr) = Time pr"
  "Time (upd_sizeBytes line pr) = Time pr"
  "Time (upd_speed line pr) = Time pr"
  "Time (upd_drop line pr) = Time pr"
  "Time (upd_dup line pr) = Time pr"
  by (simp_all add: upd_frame_def upd_quantizer_def upd_size_def upd_sizeBytes_def
        upd_speed_def upd_drop_def upd_dup_def split: option.splits)

lemma Quantizer_upd [simp]:
  "Quantizer (upd_frame line pr) = Quantizer pr"
  "Quantizer (upd_size line pr) = Quantizer pr"
  "Quantizer (upd_sizeBytes line pr) = Quantizer pr"
  "Quantizer (upd_time line pr) = Quantizer pr"
  "Quantizer (upd_timeMs line pr) = Quantizer pr"
  "Quantizer (upd_speed line pr) = Quantizer pr"
  "Quantizer (upd_drop line pr) = Quantizer pr"
  "Quantizer (upd_dup line pr) = Quantizer pr"
  by (simp_all add: upd_frame_def upd_size_def upd_sizeBytes_def upd_time_def
        upd_timeMs_def upd_speed_def upd_drop_def upd_dup_def split: option.splits)

lemma Speed_upd [simp]:
  "Speed (upd_frame line pr) = Speed pr"
  "Speed (upd_quantizer line pr) = Speed pr"
  "Speed (upd_size line pr) = Speed pr"
  "Speed (upd_sizeBytes line pr) = Speed pr"
  "Speed (upd_time line pr) = Speed pr"
  "Speed (upd_timeMs line pr) = Speed pr"
  "Speed (upd_drop line pr) = Speed pr"
  "Speed (upd_dup line pr) = Speed pr"
  by (simp_all add: upd_frame_def upd_quantizer_def upd_size_def upd_sizeBytes_def upd_time_def
        upd_timeMs_def upd_drop_def upd_dup_def split: option.splits)

lemma Drop_upd [simp]:
  "Drop (upd_frame line pr) = Drop pr"
  "Drop (upd_quantizer line pr) = Drop pr"
  "Drop (upd_size line pr) = Drop pr"
  "Drop (upd_sizeBytes line pr) = Drop pr"
  "Drop (upd_time line pr) = Drop pr"
  "Drop (upd_timeMs line pr) = Drop pr"
  "Drop (upd_speed line pr) = Drop pr"
  "Drop (upd_dup line pr) = Drop pr"
  by (simp_all add: upd_frame_def upd_quantizer_def upd_size_def upd_sizeBytes_def upd_time_def
        upd_timeMs_def upd_speed_def upd_dup_def split: option.splits)

lemma Dup_upd [simp]:
  "Dup (upd_frame line pr) = Dup pr"
  "Dup (upd_quantizer line pr) = Dup pr"
  "Dup (upd_size line pr) = Dup pr"
  "Dup (upd_sizeBytes line pr) = Dup pr"
  "Dup (upd_time line pr) = Dup pr"
  "Dup (upd_timeMs line pr) = Dup pr"
  "Dup (upd_speed line pr) = Dup pr"
  "Dup (upd_drop line pr) = Dup pr"
  by (simp_all add: upd_frame_def upd_quantizer_def upd_size_def upd_sizeBytes_def upd_time_def
        upd_timeMs_def upd_speed_def upd_drop_def split: option.splits)

text \<open>
  Claim C3, as the code has it. \<open>Parse\<close> returns 0 for every line without the token
  \<open>frame=\<close>. For a line whose frame field is matched and parses to \<open>n\<close>, it stores
  \<open>n\<close> and returns \<open>n\<close>: the result is non-zero exactly when \<open>n\<close> is.
\<close>

theorem Parse_returns_frame:
  "(\<not> Contains line ''frame='' \<longrightarrow> fst (Parse line p) = 0) \<and>
   (parse_field (re_frame line) = Some n \<longrightarrow>
      Contains line ''frame='' \<and> fst (Parse line p) = n \<and>
      Frame (progress (snd (Parse line p))) = n \<and>
      (fst (Parse line p) \<noteq> 0 \<longleftrightarrow> n \<noteq> 0))"
proof (intro conjI impI)
  assume "\<not> Contains line ''frame=''"
  then show "fst (Parse line p) = 0"
    by (simp add: Parse_not_progress)
next
  assume n: "parse_field (re_frame line) = Some n"
  then obtain g where g: "re_frame line = Some g" "ParseUint g = Some n"
    by (auto simp: parse_field_def split: option.splits)
  from g(1) show c: "Contains line ''frame=''"
    by (rule re_frame_Contains)
  from g have "Frame (parse_updates line (progress p)) = n"
    by (simp add: parse_updates_def upd_frame_def)
  with c show "fst (Parse line p) = n" "Frame (progress (snd (Parse line p))) = n"
    "fst (Parse line p) \<noteq> 0 \<longleftrightarrow> n \<noteq> 0"
    by (simp_all add: Parse_progress)
qed

theorem Parse_returns_frame_witness:
  "fst (Parse ''frame=   42 q=28.0 size=     100kB time=00:00:01.50 speed=1.2x'' (New_parser 100)) = 42
   \<and> fst (Parse ''Press [q] to stop, [?] for help'' (New_parser 100)) = 0"
proof -
  have a: "parse_field (re_frame ''frame=   42 q=28.0 size=     100kB time=00:00:01.50 speed=1.2x'') = Some 42"
    by code_simp
  have b: "\<not> Contains ''Press [q] to stop, [?] for help'' ''frame=''"
    by code_simp
  from Parse_returns_frame [of "''frame=   42 q=28.0 size=     100kB time=00:00:01.50 speed=1.2x''" "New_parser 100" 42] a
       Parse_returns_frame [of "''Press [q] to stop, [?] for help''" "New_parser 100"] b
  show ?thesis by blast
qed

text \<open>
  A progress line that reports frame 0, as the transcoder prints before its first frame,
  carries a parseable frame value and yet \<open>Parse\<close> returns 0 on it.
\<close>

theorem Parse_zero_frame_counterexample:
  "Contains ''frame=    0 fps=0.0 q=0.0 size=       0kB'' ''frame='' \<and>
   parse_field (re_frame ''frame=    0 fps=0.0 q=0.0 size=       0kB'') = Some 0 \<and>
   fst (Parse ''frame=    0 fps=0.0 q=0.0 size=       0kB'' (New_parser 100)) = 0"
  by code_simp















lemma ResetStats_Frame: "Frame (progress (ResetStats p)) = 0"
  by (simp add: ResetStats_def Progress_zero_def)

text \<open>
  Claim C10. On a line that contains \<open>frame=\<close> but whose frame field gives no value
  (no digits follow, or the digits do not fit 64 bits), \<open>Parse\<close> leaves \<open>Frame\<close> as
  it was and returns the stored \<open>Frame\<close>; every field whose patterns do not match
  keeps its value. So the result is non-zero exactly when the stored frame is, and it
  is 0 right after \<open>ResetStats\<close>.
\<close>

theorem Parse_unparseable_frame:
  assumes "Contains line ''frame=''"
    and "parse_field (re_frame line) = None"
  shows "fst (Parse line p) = Frame (progress p) \<and>
         Frame (progress (snd (Parse line p))) = Frame (progress p) \<and>
         (re_quantizer line = None \<longrightarrow>
            Quantizer (progress (snd (Parse line p))) = Quantizer (progress p)) \<and>
         (re_size line = None \<and> re_sizeBytes line = None \<longrightarrow>
            Size (progress (snd (Parse line p))) = Size (progress p)) \<and>
         (re_time line = None \<and> re_timeMs line = None \<longrightarrow>
            Time (progress (snd (Parse line p))) = Time (progress p)) \<and>
         (re_speed line = None \<longrightarrow>
            Speed (progress (snd (Parse line p))) = Speed (progress p)) \<and>
         (re_drop line = None \<longrightarrow>
            Drop (progress (snd (Parse line p))) = Drop (progress p)) \<and>
         (re_dup line = None \<longrightarrow>
            Dup (progress (snd (Parse line p))) = Dup (progress p)) \<and>
         (fst (Parse line p) \<noteq> 0 \<longleftrightarrow> Frame (progress p) \<noteq> 0) \<and>
         fst (Parse line (ResetStats p)) = 0"
proof -
  from assms(2) have fr: "upd_frame line pr = pr" for pr
    by (simp add: upd_frame_def parse_field_def split: option.splits)
  from assms(1) have P: "progress (snd (Parse line q)) = parse_updates line (progress q)"
    and R: "fst (Parse line q) = Frame (parse_updates line (progress q))" for q
    by (simp_all add: Parse_progress)
  have 1: "fst (Parse line p) = Frame (progress p)"
    by (simp add: R parse_updates_def fr)
  have 2: "Frame (progress (snd (Parse line p))) = Frame (progress p)"
    by (simp add: P parse_updates_def fr)
  have 3: "fst (Parse line (ResetStats p)) = 0"
    by (simp add: R parse_updates_def fr ResetStats_Frame)
  have 4: "re_quantizer line = None \<longrightarrow>
           Quantizer (progress (snd (Parse line p))) = Quantizer (progress p)"
    by (simp add: P parse_updates_def fr upd_quantizer_def)
  have 5: "re_size line = None \<and> re_sizeBytes line = None \<longrightarrow>
           Size (progress (snd (Parse line p))) = Size (progress p)"
    by (simp add: P parse_updates_def fr upd_size_def upd_sizeBytes_def)
  have 6: "re_time line = None \<and> re_timeMs line = None \<longrightarrow>
           Time (progress (snd (Parse line p))) = Time (progress p)"
    by (simp add: P parse_updates_def fr upd_time_def upd_timeMs_def)
  have 7: "re_speed line = None \<longrightarrow>
           Speed (progress (snd (Parse line p))) = Speed (progress p)"
    by (simp add: P parse_updates_def fr upd_speed_def)
  have 8: "re_drop line = None \<longrightarrow>
           Drop (progress (snd (Parse line p))) = Drop (progress p)"
    by (simp add: P parse_updates_def fr upd_drop_def)
  have 9: "re_dup line = None \<longrightarrow>
           Dup (progress (snd (Parse line p))) = Dup (progress p)"
    by (simp add: P parse_updates_def fr upd_dup_def)
  from 1 2 3 4 5 6 7 8 9 show ?thesis
    by simp
qed

theorem Parse_unparseable_frame_witness:
  "fst (Parse ''frame=N/A speed=1.5x'' (snd (Parse ''frame=7 q=2.0'' (New_parser 100)))) = 7 \<and>
   Quantizer (progress (snd (Parse ''frame=N/A speed=1.5x'' (snd (Parse ''frame=7 q=2.0'' (New_parser 100))))))
     = 2 \<and>
   fst (Parse ''frame=N/A speed=1.5x'' (ResetStats (snd (Parse ''frame=7 q=2.0'' (New_parser 100))))) = 0 \<and>
   fst (Parse ''frame=99999999999999999999'' (snd (Parse ''frame=7 q=2.0'' (New_parser 100)))) = 7"
proof -
  have a: "Contains ''frame=N/A speed=1.5x'' ''frame=''"
    "parse_field (re_frame ''frame=N/A speed=1.5x'') = None"
    "re_quantizer ''frame=N/A speed=1.5x'' = None"
    by code_simp+
  have b: "Contains ''frame=99999999999999999999'' ''frame=''"
    "parse_field (re_frame ''frame=99999999999999999999'') = None"
    by code_simp+
  have c: "Frame (progress (snd (Parse ''frame=7 q=2.0'' (New_parser 100)))) = 7"
    "Quantizer (progress (snd (Parse ''frame=7 q=2.0'' (New_parser 100)))) = 2"
    by code_simp+
  from Parse_unparseable_frame [OF a(1,2), of "snd (Parse ''frame=7 q=2.0'' (New_parser 100))"]
       Parse_unparseable_frame [OF b, of "snd (Parse ''frame=7 q=2.0'' (New_parser 100))"]
       a(3) c
  show ?thesis by simp
qed

section \<open>Properties of the supervisor\<close>

lemmas state_defs =
  stateFinished_def stateStarting_def stateRunning_def stateFinishing_def
  stateFailed_def stateKilled_def


lemma state_distinct [simp]:
  "stateFinished \<noteq> stateStarting"
  "stateFinished \<noteq> stateRunning"
  "stateFinished \<noteq> stateFinishing"
  "stateFinished \<noteq> stateFailed"
  "stateFinished \<noteq> stateKilled"
  "stateStarting \<noteq> stateFinished"
  "stateStarting \<noteq> stateRunning"
  "stateStarting \<noteq> stateFinishing"
  "stateStarting \<noteq> stateFailed"
  "stateStarting \<noteq> stateKilled"
  "stateRunning \<noteq> stateFinished"
  "stateRunning \<noteq> stateStarting"
  "stateRunning \<noteq> stateFinishing"
  "stateRunning \<noteq> stateFailed"
  "stateRunning \<noteq> stateKilled"
  "stateFinishing \<noteq> stateFinished"
  "stateFinishing \<noteq> stateStarting"
  "stateFinishing \<noteq> stateRunning"
  "stateFinishing \<noteq> stateFailed"
  "stateFinishing \<noteq> stateKilled"
  "stateFailed \<noteq> stateFinished"
  "stateFailed \<noteq> stateStarting"
  "stateFailed \<noteq> stateRunning"
  "stateFailed \<noteq> stateFinishing"
  "stateFailed \<noteq> stateKilled"
  "stateKilled \<noteq> stateFinished"
  "stateKilled \<noteq> stateStarting"
  "stateKilled \<noteq> stateRunning"
  "stateKilled \<noteq> stateFinishing"
  "stateKilled \<noteq> stateFailed"
  by (simp_all add: state_defs)

lemma setState_accept:
  assumes "code_transition (state p) st"
  shows "fst (setState st p) = None \<and>
         state (snd (setState st p)) = st \<and>
         changes (snd (setState st p)) = changes p @ [(state p, st)]"
  using assms unfolding code_transition_def spec_transition_def
  by (elim disjE conjE) (simp_all add: setState_def commit_def)

lemma setState_frame:
  "binary (snd (setState st p)) = binary p"
  "args (snd (setState st p)) = args p"
  "pid (snd (setState st p)) = pid p"
  "order (snd (setState st p)) = order p"
  "parser (snd (setState st p)) = parser p"
  "stale_timeout (snd (setState st p)) = stale_timeout p"
  "stale_cancel (snd (setState st p)) = stale_cancel p"
  "reconn_enable (snd (setState st p)) = reconn_enable p"
  "reconn_delay (snd (setState st p)) = reconn_delay p"
  "reconn_timer (snd (setState st p)) = reconn_timer p"
  "killTimer (snd (setState st p)) = killTimer p"
  "readers (snd (setState st p)) = readers p"
  "stalers (snd (setState st p)) = stalers p"
  by (simp_all add: setState_def commit_def refuse_def)

lemma setState_refuse:
  assumes "\<not> code_transition (state p) st"
  shows "\<exists>e. setState st p = (Some e, p)"
  using assms unfolding code_transition_def spec_transition_def
  by (auto simp add: setState_def refuse_def)


lemma spec_not_from_starting_to_finishing:
  "\<not> spec_transition stateStarting stateFinishing"
  by (simp add: spec_transition_def)


lemma Inv0_fields [simp]:
  "Inv0 (p\<lparr>order := x1\<rparr>) = Inv0 p"
  "Inv0 (p\<lparr>parser := x2\<rparr>) = Inv0 p"
  "Inv0 (p\<lparr>pid := x3\<rparr>) = Inv0 p"
  "Inv0 (p\<lparr>stale_cancel := x4\<rparr>) = Inv0 p"
  "Inv0 (p\<lparr>reconn_timer := x5\<rparr>) = Inv0 p"
  "Inv0 (p\<lparr>killTimer := x6\<rparr>) = Inv0 p"
  "Inv0 (p\<lparr>readers := x7\<rparr>) = Inv0 p"
  "Inv0 (p\<lparr>stalers := x8\<rparr>) = Inv0 p"
  by (simp_all add: Inv0_def)

lemma Inv_fields [simp]:
  "Inv (p\<lparr>order := x1\<rparr>) = Inv p"
  "Inv (p\<lparr>parser := x2\<rparr>) = Inv p"
  "Inv (p\<lparr>pid := x3\<rparr>) = Inv p"
  "Inv (p\<lparr>stale_cancel := x4\<rparr>) = Inv p"
  "Inv (p\<lparr>reconn_timer := x5\<rparr>) = Inv p"
  "Inv (p\<lparr>killTimer := x6\<rparr>) = Inv p"
  "Inv (p\<lparr>readers := x7\<rparr>) = Inv p"
  "Inv (p\<lparr>stalers := x8\<rparr>) = Inv p"
  by (simp_all add: Inv_def)

lemma state_unreconnect [simp]:
  "state (unreconnect p) = state p" "changes (unreconnect p) = changes p"
  by (simp_all add: unreconnect_def)

lemma state_reconnect [simp]:
  "state (reconnect p) = state p" "changes (reconnect p) = changes p"
  by (simp_all add: reconnect_def)

lemma Inv_unreconnect [simp]: "Inv (unreconnect p) = Inv p"
  by (simp add: unreconnect_def)

lemma Inv_reconnect [simp]: "Inv (reconnect p) = Inv p"
  by (simp add: reconnect_def)



















lemma waiter_state:
  "state (waiter w p) =
     state (snd (setState
       (case w of
          WaitNil \<Rightarrow> stateFinished
        | WaitExitError status \<Rightarrow>
            (case status of
               Exited code \<Rightarrow> if code = 255 then stateFinished else stateFailed
             | NotExited \<Rightarrow> stateKilled)
        | WaitOtherError \<Rightarrow> stateKilled) p))"
  "changes (waiter w p) =
     changes (snd (setState
       (case w of
          WaitNil \<Rightarrow> stateFinished
        | WaitExitError status \<Rightarrow>
            (case status of
               Exited code \<Rightarrow> if code = 255 then stateFinished else stateFailed
             | NotExited \<Rightarrow> stateKilled)
        | WaitOtherError \<Rightarrow> stateKilled) p))"
  "states (waiter w p) =
     states (snd (setState
       (case w of
          WaitNil \<Rightarrow> stateFinished
        | WaitExitError status \<Rightarrow>
            (case status of
               Exited code \<Rightarrow> if code = 255 then stateFinished else stateFailed
             | NotExited \<Rightarrow> stateKilled)
        | WaitOtherError \<Rightarrow> stateKilled) p))"
  by (simp_all add: waiter_def Let_def reconnect_def unreconnect_def
        split: wait.splits wait_status.splits)

lemma terminal_from_live:
  assumes "state p = stateRunning \<or> state p = stateFinishing"
    and "st = stateFinished \<or> st = stateFailed \<or> st = stateKilled"
  shows "code_transition (state p) st"
  using assms by (auto simp: code_transition_def spec_transition_def)

lemma terminal_from_rest:
  assumes "state p \<noteq> stateRunning" "state p \<noteq> stateFinishing" "state p \<noteq> stateStarting"
    and "st = stateFinished \<or> st = stateFailed \<or> st = stateKilled"
  shows "\<not> code_transition (state p) st"
  using assms by (auto simp: code_transition_def spec_transition_def)

text \<open>
  Claim C5, as the code has it. When the process is \<open>running\<close> or \<open>finishing\<close>
  as the waiter classifies the end of the child, exit code 0 and exit code 255 commit
  \<open>finished\<close>, every other exit code commits \<open>failed\<close>, and a death by signal commits
  \<open>killed\<close>. In a state other than \<open>running\<close>, \<open>finishing\<close> and \<open>starting\<close> the
  request of the waiter is refused: state, transitions and counters stay.
\<close>

theorem waiter_classification:
  "(state p = stateRunning \<or> state p = stateFinishing \<longrightarrow>
      state (waiter (cmd_Wait (ExitCode 0)) p) = stateFinished \<and>
      state (waiter (cmd_Wait (ExitCode 255)) p) = stateFinished \<and>
      (c \<noteq> 0 \<and> c \<noteq> 255 \<longrightarrow> state (waiter (cmd_Wait (ExitCode c)) p) = stateFailed) \<and>
      state (waiter (cmd_Wait BySignal) p) = stateKilled \<and>
      changes (waiter (cmd_Wait t) p) = changes p @ [(state p, state (waiter (cmd_Wait t) p))]) \<and>
   (state p \<noteq> stateRunning \<and> state p \<noteq> stateFinishing \<and> state p \<noteq> stateStarting \<longrightarrow>
      state (waiter w p) = state p \<and> changes (waiter w p) = changes p \<and>
      states (waiter w p) = states p)"
proof (intro conjI impI)
  assume live: "state p = stateRunning \<or> state p = stateFinishing"
  note acc = setState_accept [OF terminal_from_live [OF live]]
  show "state (waiter (cmd_Wait (ExitCode 0)) p) = stateFinished"
    using acc [of stateFinished] by (simp add: waiter_state cmd_Wait_def)
  show "state (waiter (cmd_Wait (ExitCode 255)) p) = stateFinished"
    using acc [of stateFinished] by (simp add: waiter_state cmd_Wait_def)
  show "state (waiter (cmd_Wait BySignal) p) = stateKilled"
    using acc [of stateKilled] by (simp add: waiter_state cmd_Wait_def)
  show "state (waiter (cmd_Wait (ExitCode c)) p) = stateFailed" if "c \<noteq> 0 \<and> c \<noteq> 255"
    using that acc [of stateFailed] by (simp add: waiter_state cmd_Wait_def)
  show "changes (waiter (cmd_Wait t) p) = changes p @ [(state p, state (waiter (cmd_Wait t) p))]"
    using acc [of stateFinished] acc [of stateFailed] acc [of stateKilled]
    by (cases t) (simp_all add: waiter_state cmd_Wait_def)
next
  assume rest: "state p \<noteq> stateRunning \<and> state p \<noteq> stateFinishing \<and> state p \<noteq> stateStarting"
  then have r: "\<exists>e. setState st p = (Some e, p)"
    if "st = stateFinished \<or> st = stateFailed \<or> st = stateKilled" for st
    using that by (intro setState_refuse terminal_from_rest) simp_all
  from r [of stateFinished] r [of stateFailed] r [of stateKilled]
  show "state (waiter w p) = state p" "changes (waiter w p) = changes p"
    "states (waiter w p) = states p"
    by (auto simp: waiter_state split: wait.splits wait_status.splits)
qed

theorem waiter_classification_witness:
  "state (waiter (cmd_Wait (ExitCode 0)) (snd (start (Spawned 7) demo_process))) = stateFinished \<and>
   state (waiter (cmd_Wait (ExitCode 255)) (snd (start (Spawned 7) demo_process))) = stateFinished \<and>
   state (waiter (cmd_Wait (ExitCode 1)) (snd (start (Spawned 7) demo_process))) = stateFailed \<and>
   state (waiter (cmd_Wait BySignal) (snd (start (Spawned 7) demo_process))) = stateKilled \<and>
   state (waiter (cmd_Wait (ExitCode 0)) demo_process) = stateFinished \<and>
   changes (waiter (cmd_Wait (ExitCode 0)) demo_process) = []"
proof -
  have a: "state (snd (start (Spawned 7) demo_process)) = stateRunning"
    by code_simp
  have b: "state demo_process = stateFinished" "changes demo_process = []"
    by code_simp+
  from waiter_classification [of "snd (start (Spawned 7) demo_process)" 1] a
       waiter_classification [of demo_process _ _ "cmd_Wait (ExitCode 0)"] b
  show ?thesis by simp
qed

text \<open>
  A child is started; \<open>Stop\<close> finds that neither the interrupt nor the kill can be
  delivered and sets the process to \<open>failed\<close>; the reader is still alive. The child
  then ends with exit code 0, and the waiter commits nothing: the state stays
  \<open>failed\<close>.
\<close>

theorem waiter_after_failed_stop_counterexample:
  "state (run [OpStart (Spawned 7),
               OpStop False (SignalError ''os: process already finished'') [] WaitNil]
            demo_process) = stateFailed \<and>
   readers (run [OpStart (Spawned 7),
               OpStop False (SignalError ''os: process already finished'') [] WaitNil]
            demo_process) = 1 \<and>
   state (run [OpStart (Spawned 7),
               OpStop False (SignalError ''os: process already finished'') [] WaitNil,
               ChildEnds [] (cmd_Wait (ExitCode 0))] demo_process) = stateFailed \<and>
   changes (run [OpStart (Spawned 7),
               OpStop False (SignalError ''os: process already finished'') [] WaitNil,
               ChildEnds [] (cmd_Wait (ExitCode 0))] demo_process) =
     [(stateFinished, stateStarting), (stateStarting, stateRunning),
      (stateRunning, stateFinishing), (stateFinishing, stateFailed)]"
  by code_simp

lemma Log_ring_put:
  "r \<noteq> [] \<Longrightarrow>
   concat (map (\<lambda>v. case v of None \<Rightarrow> [] | Some l \<Rightarrow> [l]) (ring_put line r)) =
   concat (map (\<lambda>v. case v of None \<Rightarrow> [] | Some l \<Rightarrow> [l]) (tl r)) @ [line]"
  by (cases r) (simp_all add: ring_put_def)

lemma Parse_log_ring: "log_ring (snd (Parse line q)) = ring_put line (log_ring q)"
  by (simp add: Parse_def Let_def)

lemma Parse_Log_last: "log_ring q \<noteq> [] \<Longrightarrow> last (Log (snd (Parse line q))) = line"
  by (simp add: Log_def Parse_log_ring Log_ring_put)

text \<open>
  Claim C7. When \<open>start\<close> attempts a spawn (the process is \<open>finished\<close>, \<open>failed\<close> or
  \<open>killed\<close>) and the pipe or the start of the child fails with an error, the process
  goes through \<open>starting\<close> to \<open>failed\<close>, the error text is passed to \<open>Parse\<close> of the
  parser (and is the newest line of the log of a progress parser), the reconnect timer
  is pending exactly when reconnecting is enabled, and the error is returned. \<open>Start\<close>
  does the same whenever the order was not \<open>start\<close> already.
\<close>

theorem start_spawn_failure:
  assumes "state p = stateFinished \<or> state p = stateFailed \<or> state p = stateKilled"
    and "sp = PipeError err \<or> sp = StartError err"
  shows "fst (start sp p) = Some (Errorf err) \<and>
         state (snd (start sp p)) = stateFailed \<and>
         changes (snd (start sp p)) =
           changes p @ [(state p, stateStarting), (stateStarting, stateFailed)] \<and>
         parser (snd (start sp p)) = snd (Parser_Parse err (parser p)) \<and>
         (parser p = ProgressParser q \<and> log_ring q \<noteq> [] \<longrightarrow>
            parser (snd (start sp p)) = ProgressParser (snd (Parse err q)) \<and>
            last (Log (snd (Parse err q))) = err) \<and>
         reconn_timer (snd (start sp p)) = (if reconn_enable p then Some Pending else None) \<and>
         (order p \<noteq> ''start'' \<longrightarrow>
            fst (Start sp p) = Some (Errorf err) \<and>
            state (snd (Start sp p)) = stateFailed \<and>
            order (snd (Start sp p)) = ''start'' \<and>
            parser (snd (Start sp p)) = snd (Parser_Parse err (parser p)) \<and>
            reconn_timer (snd (Start sp p)) = (if reconn_enable p then Some Pending else None))"
proof -
  have core: "fst (start sp p') = Some (Errorf err) \<and>
         state (snd (start sp p')) = stateFailed \<and>
         changes (snd (start sp p')) =
           changes p' @ [(state p', stateStarting), (stateStarting, stateFailed)] \<and>
         parser (snd (start sp p')) = snd (Parser_Parse err (parser p')) \<and>
         reconn_timer (snd (start sp p')) = (if reconn_enable p' then Some Pending else None) \<and>
         order (snd (start sp p')) = order p'"
    if st: "state p' = stateFinished \<or> state p' = stateFailed \<or> state p' = stateKilled" for p'
  proof -
    from st have nr: "\<not> IsRunning (state p')"
      by (auto simp: IsRunning_def)
    define u where "u = unreconnect p'"
    have u: "state u = state p'" "changes u = changes p'" "parser u = parser p'"
      "reconn_enable u = reconn_enable p'" "order u = order p'" "reconn_timer u = None"
      by (simp_all add: u_def unreconnect_def)
    from st have c1: "code_transition (state u) stateStarting"
      by (auto simp: u code_transition_def spec_transition_def)
    define q where "q = snd (setState stateStarting u)"
    from setState_accept [OF c1] setState_frame [of stateStarting u]
    have q: "state q = stateStarting" "changes q = changes p' @ [(state p', stateStarting)]"
      "parser q = parser p'" "reconn_enable q = reconn_enable p'" "order q = order p'"
      "reconn_timer q = None"
      by (simp_all add: q_def u)
    have c2: "code_transition (state q) stateFailed"
      by (simp add: q code_transition_def spec_transition_def)
    define r where "r = snd (setState stateFailed q)"
    from setState_accept [OF c2] setState_frame [of stateFailed q]
    have r: "state r = stateFailed"
      "changes r = changes p' @ [(state p', stateStarting), (stateStarting, stateFailed)]"
      "parser r = parser p'" "reconn_enable r = reconn_enable p'" "order r = order p'"
      "reconn_timer r = None"
      by (simp_all add: r_def q)
    have "start sp p' = spawn_failed err q"
      using assms(2) nr by (auto simp: start_def Let_def q_def u_def)
    then show ?thesis
      using r by (simp add: spawn_failed_def Let_def r_def [symmetric] reconnect_def unreconnect_def)
  qed
  from core [OF assms(1)] have 1: "fst (start sp p) = Some (Errorf err)"
    "state (snd (start sp p)) = stateFailed"
    "changes (snd (start sp p)) =
           changes p @ [(state p, stateStarting), (stateStarting, stateFailed)]"
    "parser (snd (start sp p)) = snd (Parser_Parse err (parser p))"
    "reconn_timer (snd (start sp p)) = (if reconn_enable p then Some Pending else None)"
    by simp_all
  have 2: "parser p = ProgressParser q \<and> log_ring q \<noteq> [] \<longrightarrow>
            parser (snd (start sp p)) = ProgressParser (snd (Parse err q)) \<and>
            last (Log (snd (Parse err q))) = err"
    using 1(4) by (simp add: Parser_Parse_def Parse_Log_last)
  have 3: "order p \<noteq> ''start'' \<longrightarrow>
            fst (Start sp p) = Some (Errorf err) \<and>
            state (snd (Start sp p)) = stateFailed \<and>
            order (snd (Start sp p)) = ''start'' \<and>
            parser (snd (Start sp p)) = snd (Parser_Parse err (parser p)) \<and>
            reconn_timer (snd (Start sp p)) = (if reconn_enable p then Some Pending else None)"
    using core [of "p\<lparr>order := ''start''\<rparr>"] assms(1)
    by (simp add: Start_def)
  from 1 2 3 show ?thesis by simp
qed

theorem start_spawn_failure_witness:
  "fst (Start (StartError ''exec: no such file'') demo_process) = Some (Errorf ''exec: no such file'') \<and>
   state (snd (Start (StartError ''exec: no such file'') demo_process)) = stateFailed \<and>
   reconn_timer (snd (Start (StartError ''exec: no such file'') demo_process)) = None \<and>
   reconn_timer (snd (Start (PipeError ''pipe failed'') (demo_process\<lparr>reconn_enable := True\<rparr>)))
     = Some Pending \<and>
   parser (snd (Start (StartError ''exec: no such file'') demo_process)) =
     ProgressParser (snd (Parse ''exec: no such file'' (New_parser 3)))"
proof -
  have a: "state demo_process = stateFinished" "order demo_process \<noteq> ''start''"
    "reconn_enable demo_process = False" "parser demo_process = ProgressParser (New_parser 3)"
    by (simp_all add: demo_process_def)
  have b: "state (demo_process\<lparr>reconn_enable := True\<rparr>) = stateFinished"
    "order (demo_process\<lparr>reconn_enable := True\<rparr>) \<noteq> ''start''"
    by (simp_all add: demo_process_def)
  from start_spawn_failure [of demo_process "StartError ''exec: no such file''" "''exec: no such file''"
         "New_parser 3"] a
  have 1: "fst (Start (StartError ''exec: no such file'') demo_process) = Some (Errorf ''exec: no such file'')"
   "state (snd (Start (StartError ''exec: no such file'') demo_process)) = stateFailed"
   "reconn_timer (snd (Start (StartError ''exec: no such file'') demo_process)) = None"
   "parser (snd (Start (StartError ''exec: no such file'') demo_process)) =
     ProgressParser (snd (Parse ''exec: no such file'' (New_parser 3)))"
    by (simp_all add: Parser_Parse_def)
  from start_spawn_failure [of "demo_process\<lparr>reconn_enable := True\<rparr>" "PipeError ''pipe failed''" "''pipe failed''"
         "New_parser 3"] b
  have 2: "reconn_timer (snd (Start (PipeError ''pipe failed'') (demo_process\<lparr>reconn_enable := True\<rparr>)))
     = Some Pending"
    by simp
  from 1 2 show ?thesis by simp
qed

section \<open>Properties of the store\<close>

lemma inputs_valid_iff:
  "inputs_valid f ios \<longleftrightarrow> list_all (\<lambda>i. ValidateInput f (io_Address i)) ios"
  by (induction ios) simp_all

lemma outputs_valid_iff:
  "outputs_valid f ios \<longleftrightarrow> list_all (\<lambda>i. ValidateOutput f (io_Address i)) ios"
  by (induction ios) simp_all

text \<open>
  Claim C6. \<open>Add\<close> returns \<open>ErrInvalidConfig\<close> for a configuration without inputs or
  without outputs; otherwise \<open>ErrInvalidInputAddress\<close> when the input validator rejects
  an input address; otherwise \<open>ErrInvalidOutputAddress\<close> when the output validator
  rejects an output address; otherwise \<open>ErrTaskExists\<close> when the identifier (the given
  one, or the generated one for an empty identifier) is in the map. Whenever \<open>Add\<close>
  returns an error the store is the one it was called with; on success exactly the
  new task is added under an identifier that was free.
\<close>

theorem Add_errors:
  "(cfg_Input c = [] \<or> cfg_Output c = [] \<longrightarrow>
      fst (Add c uuid now s) = Inl ErrInvalidConfig) \<and>
   (cfg_Input c \<noteq> [] \<and> cfg_Output c \<noteq> [] \<and>
    \<not> list_all (\<lambda>i. IsValid (ff_validatorIn (st_ffmpeg s)) (io_Address i)) (cfg_Input c) \<longrightarrow>
      fst (Add c uuid now s) = Inl ErrInvalidInputAddress) \<and>
   (cfg_Input c \<noteq> [] \<and> cfg_Output c \<noteq> [] \<and>
    list_all (\<lambda>i. IsValid (ff_validatorIn (st_ffmpeg s)) (io_Address i)) (cfg_Input c) \<and>
    \<not> list_all (\<lambda>i. IsValid (ff_validatorOut (st_ffmpeg s)) (io_Address i)) (cfg_Output c) \<longrightarrow>
      fst (Add c uuid now s) = Inl ErrInvalidOutputAddress) \<and>
   (cfg_Input c \<noteq> [] \<and> cfg_Output c \<noteq> [] \<and>
    list_all (\<lambda>i. IsValid (ff_validatorIn (st_ffmpeg s)) (io_Address i)) (cfg_Input c) \<and>
    list_all (\<lambda>i. IsValid (ff_validatorOut (st_ffmpeg s)) (io_Address i)) (cfg_Output c) \<and>
    tasks s (assigned_ID c uuid) \<noteq> None \<longrightarrow>
      fst (Add c uuid now s) = Inl ErrTaskExists) \<and>
   (fst (Add c uuid now s) = Inl e \<longrightarrow> snd (Add c uuid now s) = s) \<and>
   (fst (Add c uuid now s) = Inr t \<longrightarrow>
      t_ID t = assigned_ID c uuid \<and> tasks s (t_ID t) = None \<and>
      tasks (snd (Add c uuid now s)) = (tasks s)(t_ID t \<mapsto> t))"
  by (auto simp: Add_def Let_def assigned_ID_def inputs_valid_iff outputs_valid_iff
        ValidateInput_def ValidateOutput_def split: sum.splits if_splits)





lemma Add_st_ffmpeg: "st_ffmpeg (snd (Add c uuid now s)) = st_ffmpeg s"
  by (simp add: Add_def Let_def split: sum.splits)

lemma demo_store_t1:
  "map_option t_Reference (tasks demo_store ''t1'') = Some ''ref-a''"
  "map_option t_ID (tasks demo_store ''t1'') = Some ''t1''"
  by code_simp+

lemma demo_store_ffmpeg: "st_ffmpeg demo_store = demo_ffmpeg"
  by (simp add: demo_store_def Add_st_ffmpeg)

theorem Add_errors_witness:
  "fst (Add (demo_task_config\<lparr>cfg_ID := ''t2'', cfg_Output := []\<rparr>) ''uuid'' 200 demo_store)
     = Inl ErrInvalidConfig \<and>
   fst (Add (demo_task_config\<lparr>cfg_ID := ''t2'',
          cfg_Input := [\<lparr>io_ID = ''in'', io_Address = ''/etc/passwd'', io_Options = []\<rparr>]\<rparr>)
          ''uuid'' 200 demo_store) = Inl ErrInvalidInputAddress \<and>
   fst (Add (demo_task_config\<lparr>cfg_ID := ''t2'',
          cfg_Output := [\<lparr>io_ID = ''out'', io_Address = ''rtmp://host/live'', io_Options = []\<rparr>]\<rparr>)
          ''uuid'' 200 demo_store) = Inl ErrInvalidOutputAddress \<and>
   fst (Add demo_task_config ''uuid'' 200 demo_store) = Inl ErrTaskExists \<and>
   snd (Add demo_task_config ''uuid'' 200 demo_store) = demo_store"
proof -
  have v: "IsValid (ff_validatorIn demo_ffmpeg) ''/data/in.mp4''"
    "\<not> IsValid (ff_validatorIn demo_ffmpeg) ''/etc/passwd''"
    "IsValid (ff_validatorOut demo_ffmpeg) ''/data/out.mp4''"
    "\<not> IsValid (ff_validatorOut demo_ffmpeg) ''rtmp://host/live''"
    by (simp_all add: demo_ffmpeg_def IsValid_def)
  have t: "tasks demo_store (assigned_ID demo_task_config ''uuid'') \<noteq> None"
    using demo_store_t1(1) by (auto simp: assigned_ID_def demo_task_config_def)
  from Add_errors [of "demo_task_config\<lparr>cfg_ID := ''t2'', cfg_Output := []\<rparr>" "''uuid''" 200 demo_store]
  have 1: "fst (Add (demo_task_config\<lparr>cfg_ID := ''t2'', cfg_Output := []\<rparr>) ''uuid'' 200 demo_store)
     = Inl ErrInvalidConfig"
    by simp
  from Add_errors [of "demo_task_config\<lparr>cfg_ID := ''t2'',
          cfg_Input := [\<lparr>io_ID = ''in'', io_Address = ''/etc/passwd'', io_Options = []\<rparr>]\<rparr>"
          "''uuid''" 200 demo_store] v
  have 2: "fst (Add (demo_task_config\<lparr>cfg_ID := ''t2'',
          cfg_Input := [\<lparr>io_ID = ''in'', io_Address = ''/etc/passwd'', io_Options = []\<rparr>]\<rparr>)
          ''uuid'' 200 demo_store) = Inl ErrInvalidInputAddress"
    by (simp add: demo_store_ffmpeg demo_task_config_def)
  from Add_errors [of "demo_task_config\<lparr>cfg_ID := ''t2'',
          cfg_Output := [\<lparr>io_ID = ''out'', io_Address = ''rtmp://host/live'', io_Options = []\<rparr>]\<rparr>"
          "''uuid''" 200 demo_store] v
  have 3: "fst (Add (demo_task_config\<lparr>cfg_ID := ''t2'',
          cfg_Output := [\<lparr>io_ID = ''out'', io_Address = ''rtmp://host/live'', io_Options = []\<rparr>]\<rparr>)
          ''uuid'' 200 demo_store) = Inl ErrInvalidOutputAddress"
    by (simp add: demo_store_ffmpeg demo_task_config_def)
  from Add_errors [of demo_task_config "''uuid''" 200 demo_store ErrTaskExists] v t
  have 4: "fst (Add demo_task_config ''uuid'' 200 demo_store) = Inl ErrTaskExists"
    "snd (Add demo_task_config ''uuid'' 200 demo_store) = demo_store"
    by (simp_all add: demo_store_ffmpeg demo_task_config_def)
  from 1 2 3 4 show ?thesis by simp
qed


end
